theory Spec2Isabelle
  imports Main "HOL-Library.Log_Nat"
begin

section \<open>Strings\<close>

text \<open>
  A Go string is a sequence of bytes, so it is a \<open>string\<close> (a list of 8-bit
  characters) and Go's \<open>len\<close> is \<open>length\<close>: it counts bytes, not code points.
\<close>

text \<open>
  \<open>strings.ReplaceAll(s, old, new)\<close>: every non-overlapping occurrence of \<open>old\<close>,
  scanning from the left, is replaced by \<open>new\<close>. The program only passes the one-byte
  patterns \<open>"-"\<close> and \<open>"."\<close>; for an empty pattern (never passed) the model leaves
  the string as it is.
\<close>

function ReplaceAll :: "string \<Rightarrow> string \<Rightarrow> string \<Rightarrow> string" where
  "ReplaceAll [] old new = []"
| "ReplaceAll (c # cs) old new =
     (if old \<noteq> [] \<and> take (length old) (c # cs) = old
      then new @ ReplaceAll (drop (length old) (c # cs)) old new
      else c # ReplaceAll cs old new)"
  by pat_completeness auto
termination
  by (relation "measure (\<lambda>(s, old, new). length s)") auto

text \<open>
  The normalisation both entry points of the internal service (and the geocoding client)
  apply to a postal code: the two statements
  \<open>cep = strings.ReplaceAll(cep, "-", "")\<close> and \<open>cep = strings.ReplaceAll(cep, ".", "")\<close>.
\<close>

definition normalizeCEP :: "string \<Rightarrow> string" where
  "normalizeCEP cep = ReplaceAll (ReplaceAll cep ''-'' '''') ''.'' ''''"

definition isDigit :: "char \<Rightarrow> bool" where
  "isDigit c = (48 \<le> (of_char c :: nat) \<and> (of_char c :: nat) \<le> 57)"

subsection \<open>Ranging over a string\<close>

text \<open>
  \<open>for _, c := range s\<close> decodes \<open>s\<close> as UTF-8, one code point per iteration. An
  invalid or truncated sequence yields the code point \<open>0xFFFD\<close> and advances one byte.
  \<open>DecodeRune\<close> follows Go's decoder on the bytes as numbers: the first byte fixes the
  width and the range accepted for the second byte; it returns the code point and the
  number of bytes consumed.
\<close>

definition RuneError :: nat where
  "RuneError = 65533"

text \<open>
  The code point of a two-, three- and four-byte sequence: the payload bits of each byte
  (\<open>s0 & mask\<close>, \<open>s1 & 0x3F\<close>, ...) shifted into place.
\<close>

definition rune2 :: "nat \<Rightarrow> nat \<Rightarrow> nat" where
  "rune2 b0 b1 = (b0 mod 32) * 64 + b1 mod 64"

definition rune3 :: "nat \<Rightarrow> nat \<Rightarrow> nat \<Rightarrow> nat" where
  "rune3 b0 b1 b2 = (b0 mod 16) * 4096 + (b1 mod 64) * 64 + b2 mod 64"

definition rune4 :: "nat \<Rightarrow> nat \<Rightarrow> nat \<Rightarrow> nat \<Rightarrow> nat" where
  "rune4 b0 b1 b2 b3 =
     (b0 mod 8) * 262144 + (b1 mod 64) * 4096 + (b2 mod 64) * 64 + b3 mod 64"

fun DecodeRune :: "nat list \<Rightarrow> nat \<times> nat" where
  "DecodeRune [] = (RuneError, 0)"
| "DecodeRune (b0 # bs) =
     (if b0 < 128 then (b0, 1)
      else if b0 < 194 \<or> 244 < b0 then (RuneError, 1)
      else
        let sz = (if b0 < 224 then 2 else if b0 < 240 then 3 else 4 :: nat);
            lo = (if b0 = 224 then 160 else if b0 = 240 then 144 else 128 :: nat);
            hi = (if b0 = 237 then 159 else if b0 = 244 then 143 else 191 :: nat)
        in
          if length (b0 # bs) < sz then (RuneError, 1)
          else
            let b1 = bs ! 0 in
            if b1 < lo \<or> hi < b1 then (RuneError, 1)
            else if sz \<le> 2 then (rune2 b0 b1, 2)
            else
              let b2 = bs ! 1 in
              if b2 < 128 \<or> 191 < b2 then (RuneError, 1)
              else if sz \<le> 3 then (rune3 b0 b1 b2, 3)
              else
                let b3 = bs ! 2 in
                if b3 < 128 \<or> 191 < b3 then (RuneError, 1)
                else (rune4 b0 b1 b2 b3, 4))"

lemma DecodeRune_width:
  "bs \<noteq> [] \<Longrightarrow> 1 \<le> snd (DecodeRune bs)"
  by (cases bs) (auto simp: Let_def)

section \<open>The edge service: validation\<close>

text \<open>
  \<open>isValidCEP\<close> of the edge service: the length test on the raw string, then the loop
  \<open>for _, c := range cep\<close> that rejects at the first code point outside \<open>'0'..'9'\<close>.
\<close>

function isValidCEP_loop :: "string \<Rightarrow> bool" where
  "isValidCEP_loop s =
     (if s = [] then True
      else
        let r = DecodeRune (map of_char s) in
        if fst r < 48 \<or> 57 < fst r then False
        else isValidCEP_loop (drop (snd r) s))"
  by pat_completeness auto
termination
proof (relation "measure length")
  show "wf (measure length)" by simp
next
  fix s :: string and r :: "nat \<times> nat"
  assume "s \<noteq> []" and "r = DecodeRune (map of_char s)"
  then have "1 \<le> snd r"
    using DecodeRune_width [of "map of_char s"] by simp
  with \<open>s \<noteq> []\<close> show "(drop (snd r) s, s) \<in> measure length"
    by (cases s) auto
qed

declare isValidCEP_loop.simps [simp del]

definition isValidCEP :: "string \<Rightarrow> bool" where
  "isValidCEP cep = (if length cep \<noteq> 8 then False else isValidCEP_loop cep)"

section \<open>Errors\<close>

text \<open>
  A Go \<open>error\<close> is one of the six sentinel values the package \<open>services\<close> declares
  with \<open>errors.New\<close>, an error made outside the program (by \<open>net/http\<close>, \<open>io\<close> or
  \<open>encoding/json\<close>; it is never one of the sentinels), or the result of \<open>fmt.Errorf\<close>
  with one \<open>%w\<close> verb: the text before the verb, the wrapped error, the text after it.
\<close>

datatype neterr = NetErr string

datatype error =
    ErrInvalidZipCode
  | ErrZipCodeNotFound
  | ErrInternalServer
  | ErrAPIKeyNotConfigured
  | ErrWeatherAPIFailed
  | ErrCityNotFound
  | External neterr
  | Errorf string error string

text \<open>The method \<open>Error()\<close>: the message of an error.\<close>

fun Error :: "error \<Rightarrow> string" where
  "Error ErrInvalidZipCode = ''invalid zipcode''"
| "Error ErrZipCodeNotFound = ''can not find zipcode''"
| "Error ErrInternalServer = ''internal server error''"
| "Error ErrAPIKeyNotConfigured = ''weather API key not configured''"
| "Error ErrWeatherAPIFailed = ''weather API request failed''"
| "Error ErrCityNotFound = ''city not found''"
| "Error (External (NetErr m)) = m"
| "Error (Errorf before e after) = before @ Error e @ after"

text \<open>
  \<open>errors.Is(err, target)\<close>: \<open>err\<close> is \<open>target\<close>, or wraps an error that is.
\<close>

fun Is :: "error \<Rightarrow> error \<Rightarrow> bool" where
  "Is (Errorf before e after) target = (Errorf before e after = target \<or> Is e target)"
| "Is e target = (e = target)"

section \<open>The HTTP client\<close>

text \<open>
  What the program reads of an \<open>*http.Response\<close>: the status code, and the body, whose
  reading gives the bytes or fails.
\<close>

record http_response =
  StatusCode :: int
  Body :: "neterr + string"

text \<open>
  The result of \<open>client.Do(req)\<close>: a response with a nil error, or a non-nil error. With
  the error the response is nil, except when the redirect policy stops the request:
  then \<open>net/http\<close> returns the last response together with the error.
\<close>

datatype do_result =
    Resp http_response
  | Failed "http_response option" neterr

record ViaCEPResponse =
  Cep :: string
  Logradouro :: string
  Complemento :: string
  Bairro :: string
  Localidade :: string
  UF :: string
  Erro :: bool

text \<open>
  What the program does while it runs, besides returning: calls of \<open>client.Do\<close> (their
  number), and calls of \<open>time.Sleep\<close> (the durations in milliseconds, latest first).
  Logging and tracing are left out.
\<close>

record effects =
  calls :: nat
  slept :: "nat list"

definition called :: "effects \<Rightarrow> effects" where
  "called s = s\<lparr>calls := Suc (calls s)\<rparr>"

definition Sleep :: "nat \<Rightarrow> effects \<Rightarrow> effects" where
  "Sleep ms s = s\<lparr>slept := ms # slept s\<rparr>"

section \<open>Floating point\<close>

text \<open>
  A \<open>float64\<close> is an IEEE 754 binary64 value: \<open>Finite m e\<close> is the number \<open>m * 2^e\<close>,
  kept in the normal form where \<open>m\<close> is odd (or \<open>m = 0\<close> and \<open>e = 0\<close>), so that two
  finite values are the same number exactly when they are equal as terms. The sign of
  zero is not kept: the program compares with \<open>!= 0\<close>, under which both zeros are equal,
  and no number it returns is a negative zero. Every operation rounds the exact result
  to the nearest representable value, ties to even, as the hardware does (the services
  are built for amd64, where the compiler does not fuse a multiplication with an
  addition).
\<close>

datatype float64 = Finite int int | PosInf | NegInf | NaN

function normal :: "int \<Rightarrow> int \<Rightarrow> float64" where
  "normal m e =
     (if m = 0 then Finite 0 0
      else if even m then normal (m div 2) (e + 1)
      else Finite m e)"
  by pat_completeness auto
termination
  by (relation "measure (\<lambda>(m, e). nat \<bar>m\<bar>)") auto

declare normal.simps [simp del]

text \<open>\<open>half_even a b\<close>: the integer nearest to \<open>a / b\<close> (for \<open>b > 0\<close>), ties to even.\<close>

definition half_even :: "int \<Rightarrow> int \<Rightarrow> int" where
  "half_even a b =
     (let f = a div b; r = a mod b
      in if 2 * r < b then f else if b < 2 * r then f + 1 else if even f then f else f + 1)"

text \<open>\<open>ilog2 a b\<close>: the integer part of the binary logarithm of \<open>a / b\<close>, for \<open>a, b > 0\<close>.\<close>

definition ilog2 :: "int \<Rightarrow> int \<Rightarrow> int" where
  "ilog2 a b =
     (let d = bitlen a - bitlen b
      in if (if 0 \<le> d then b * 2 ^ nat d \<le> a else b \<le> a * 2 ^ nat (- d)) then d else d - 1)"

text \<open>
  \<open>round64 p q\<close>: the \<open>float64\<close> nearest to the fraction \<open>p / q\<close> (for \<open>q > 0\<close>): 53
  significant bits, the exponent not below that of the subnormal numbers, and an
  infinity when the rounded value is \<open>2^1024\<close> or more.
\<close>

definition round64 :: "int \<Rightarrow> int \<Rightarrow> float64" where
  "round64 p q =
     (if p = 0 then Finite 0 0
      else
        let a = \<bar>p\<bar>;
            e = max (ilog2 a q) (- 1022);
            k = 52 - e;
            n = (if 0 \<le> k then half_even (a * 2 ^ nat k) q else half_even a (q * 2 ^ nat (- k)))
        in if 1024 \<le> e \<or> (e = 1023 \<and> 2 ^ 53 \<le> n) then (if 0 < p then PosInf else NegInf)
           else normal (if 0 < p then n else - n) (- k))"

text \<open>\<open>scaled m e\<close>: the \<open>float64\<close> nearest to \<open>m * 2^e\<close>.\<close>

definition scaled :: "int \<Rightarrow> int \<Rightarrow> float64" where
  "scaled m e = (if 0 \<le> e then round64 (m * 2 ^ nat e) 1 else round64 m (2 ^ nat (- e)))"

fun fadd :: "float64 \<Rightarrow> float64 \<Rightarrow> float64" where
  "fadd (Finite m1 e1) (Finite m2 e2) =
     (let e = min e1 e2 in scaled (m1 * 2 ^ nat (e1 - e) + m2 * 2 ^ nat (e2 - e)) e)"
| "fadd NaN y = NaN"
| "fadd x NaN = NaN"
| "fadd PosInf NegInf = NaN"
| "fadd NegInf PosInf = NaN"
| "fadd PosInf y = PosInf"
| "fadd x PosInf = PosInf"
| "fadd NegInf y = NegInf"
| "fadd x NegInf = NegInf"

fun fmul :: "float64 \<Rightarrow> float64 \<Rightarrow> float64" where
  "fmul (Finite m1 e1) (Finite m2 e2) = scaled (m1 * m2) (e1 + e2)"
| "fmul NaN y = NaN"
| "fmul x NaN = NaN"
| "fmul PosInf (Finite m e) = (if m = 0 then NaN else if 0 < m then PosInf else NegInf)"
| "fmul NegInf (Finite m e) = (if m = 0 then NaN else if 0 < m then NegInf else PosInf)"
| "fmul (Finite m e) PosInf = (if m = 0 then NaN else if 0 < m then PosInf else NegInf)"
| "fmul (Finite m e) NegInf = (if m = 0 then NaN else if 0 < m then NegInf else PosInf)"
| "fmul PosInf PosInf = PosInf"
| "fmul NegInf NegInf = PosInf"
| "fmul PosInf NegInf = NegInf"
| "fmul NegInf PosInf = NegInf"

text \<open>
  Division. A zero divisor is taken as positive zero (the program only divides by the
  factor \<open>100\<close>).
\<close>

fun fdiv :: "float64 \<Rightarrow> float64 \<Rightarrow> float64" where
  "fdiv (Finite m1 e1) (Finite m2 e2) =
     (if m2 = 0 then (if m1 = 0 then NaN else if 0 < m1 then PosInf else NegInf)
      else
        let p = (if 0 < m2 then m1 else - m1); d = e1 - e2
        in if 0 \<le> d then round64 (p * 2 ^ nat d) \<bar>m2\<bar> else round64 p (\<bar>m2\<bar> * 2 ^ nat (- d)))"
| "fdiv NaN y = NaN"
| "fdiv x NaN = NaN"
| "fdiv PosInf (Finite m e) = (if 0 \<le> m then PosInf else NegInf)"
| "fdiv NegInf (Finite m e) = (if 0 \<le> m then NegInf else PosInf)"
| "fdiv (Finite m e) PosInf = Finite 0 0"
| "fdiv (Finite m e) NegInf = Finite 0 0"
| "fdiv PosInf PosInf = NaN"
| "fdiv PosInf NegInf = NaN"
| "fdiv NegInf PosInf = NaN"
| "fdiv NegInf NegInf = NaN"

text \<open>
  The conversions \<open>float64(i)\<close> of an \<open>int\<close> and \<open>int(x)\<close> of a \<open>float64\<close>. The latter
  drops the fraction (it truncates towards zero); for a value no 64-bit integer holds,
  Go leaves the result to the implementation, and amd64 gives \<open>-2^63\<close>.
\<close>

definition float64_of_int :: "int \<Rightarrow> float64" where
  "float64_of_int i = round64 i 1"

fun int_of_float64 :: "float64 \<Rightarrow> int" where
  "int_of_float64 (Finite m e) =
     (let t = (if 0 \<le> e then m * 2 ^ nat e
               else if 0 \<le> m then m div 2 ^ nat (- e) else - ((- m) div 2 ^ nat (- e)))
      in if - (2 ^ 63) \<le> t \<and> t < 2 ^ 63 then t else - (2 ^ 63))"
| "int_of_float64 x = - (2 ^ 63)"

text \<open>
  The function \<open>round(num, places)\<close> of the weather client: the loop multiplies
  \<open>factor\<close> by ten \<open>places\<close> times, and the result is
  \<open>float64(int(num*factor+0.5)) / factor\<close>.
\<close>

primrec round_factor :: "nat \<Rightarrow> float64 \<Rightarrow> float64" where
  "round_factor 0 factor = factor"
| "round_factor (Suc i) factor = round_factor i (fmul factor (float64_of_int 10))"

definition round_go :: "float64 \<Rightarrow> nat \<Rightarrow> float64" where
  "round_go num places =
     (let factor = round_factor places (float64_of_int 1)
      in fdiv (float64_of_int (int_of_float64 (fadd (fmul num factor) (round64 1 2)))) factor)"

section \<open>The internal service\<close>

subsection \<open>Its surroundings\<close>

record WeatherAPIResponse =
  Current_TempC :: float64
  Current_TempF :: float64
  Error_Code :: int
  Error_Message :: string

record Temperature =
  TempC :: float64
  TempF :: float64
  TempK :: float64

text \<open>
  Everything outside the program that the internal service reads: the environment
  variable, the standard library's functions the model does not open (\<open>url.QueryEscape\<close>,
  \<open>http.NewRequestWithContext\<close>, whose result is \<open>None\<close> when it succeeds, and the JSON
  decoders for the three expected shapes), and the shared HTTP client: \<open>Do w n url\<close> is
  the result of the call to \<open>client.Do\<close> made after \<open>n\<close> earlier calls, for a request to
  \<open>url\<close>.
\<close>

record world =
  WEATHER_API_KEY :: string
  QueryEscape :: "string \<Rightarrow> string"
  NewRequest :: "string \<Rightarrow> neterr option"
  Do :: "nat \<Rightarrow> string \<Rightarrow> do_result"
  Unmarshal_ViaCEPResponse :: "string \<Rightarrow> neterr + ViaCEPResponse"
  Decode_WeatherAPIResponse :: "string \<Rightarrow> neterr + WeatherAPIResponse"
  Unmarshal_CepRequest :: "string \<Rightarrow> neterr + string"

text \<open>
  How a call ends: it returns a value, it returns an error, or it panics (a nil pointer
  is dereferenced).
\<close>

datatype 'a outcome = Ok 'a | Err error | Panic

subsection \<open>The geocoding client\<close>

definition GetCityByCEP :: "world \<Rightarrow> string \<Rightarrow> effects \<Rightarrow> string outcome \<times> effects" where
  "GetCityByCEP w cep0 s =
     (let cep = normalizeCEP cep0 in
      if length cep \<noteq> 8 then (Err ErrInvalidZipCode, s)
      else
        let url = ''https://viacep.com.br/ws/'' @ cep @ ''/json/'' in
        case NewRequest w url of
          Some e \<Rightarrow> (Err (Errorf ''failed to create request: '' (External e) []), s)
        | None \<Rightarrow>
            (case Do w (calls s) url of
               Failed r e \<Rightarrow> (Err (Errorf ''failed to send request: '' (External e) []), called s)
             | Resp resp \<Rightarrow>
                 if StatusCode resp \<noteq> 200 then (Err ErrZipCodeNotFound, called s)
                 else
                   (case Body resp of
                      Inl e \<Rightarrow> (Err ErrInternalServer, called s)
                    | Inr bodyBytes \<Rightarrow>
                        (case Unmarshal_ViaCEPResponse w bodyBytes of
                           Inl e \<Rightarrow> (Err ErrInternalServer, called s)
                         | Inr viacepResponse \<Rightarrow>
                             if Erro viacepResponse then (Err ErrZipCodeNotFound, called s)
                             else if Localidade viacepResponse = []
                             then (Err ErrZipCodeNotFound, called s)
                             else (Ok (Localidade viacepResponse), called s)))))"

subsection \<open>The weather client\<close>

definition maxRetries :: nat where
  "maxRetries = 3"

text \<open>
  The retry loop of \<open>GetTemperature\<close>. Before it the function declares \<open>resp\<close> and
  \<open>err\<close>; the loop's body starts with \<open>req, err := http.NewRequestWithContext(...)\<close>,
  which declares a new \<open>err\<close> for the body, so that \<open>resp, err = s.client.Do(req)\<close>
  assigns the outer \<open>resp\<close> and the body's \<open>err\<close>. The loop is a function of the attempt
  number and the two outer variables, and returns them: \<open>err\<close> comes back as it went in.
\<close>

function retry_loop ::
  "world \<Rightarrow> string \<Rightarrow> nat \<Rightarrow> http_response option \<Rightarrow> error option \<Rightarrow> effects
     \<Rightarrow> http_response option \<times> error option \<times> effects" where
  "retry_loop w reqURL attempt resp err s =
     (if attempt \<le> maxRetries then
        (case NewRequest w reqURL of
           Some e \<Rightarrow> retry_loop w reqURL (attempt + 1) resp err (Sleep (attempt * 100) s)
         | None \<Rightarrow>
             (case Do w (calls s) reqURL of
                Resp r \<Rightarrow> (Some r, err, called s)
              | Failed r e \<Rightarrow>
                  retry_loop w reqURL (attempt + 1) r err
                    (if attempt < maxRetries then Sleep (attempt * 100) (called s)
                     else called s)))
      else (resp, err, s))"
  by pat_completeness auto
termination
  by (relation "measure (\<lambda>(w, reqURL, attempt, resp, err, s). Suc maxRetries - attempt)") auto

declare retry_loop.simps [simp del]

definition GetTemperature :: "world \<Rightarrow> string \<Rightarrow> effects \<Rightarrow> Temperature outcome \<times> effects" where
  "GetTemperature w city s =
     (let apiKey = WEATHER_API_KEY w in
      if apiKey = [] then (Err ErrAPIKeyNotConfigured, s)
      else
        let encodedCity = QueryEscape w city;
            reqURL = ''https://api.weatherapi.com/v1/current.json'' @ ''?key='' @ apiKey
                       @ ''&q='' @ encodedCity;
            (resp, err, s') = retry_loop w reqURL 1 None None s
        in
          case err of
            Some e \<Rightarrow> (Err (Errorf ''all weather API requests failed: '' e []), s')
          | None \<Rightarrow>
              (case resp of
                 None \<Rightarrow> (Panic, s')
               | Some r \<Rightarrow>
                   (case (case Body r of Inl e \<Rightarrow> Inl e
                          | Inr b \<Rightarrow> Decode_WeatherAPIResponse w b) of
                      Inl e \<Rightarrow>
                        (Err (Errorf ''failed to decode API response: '' (External e) []), s')
                    | Inr weatherResp \<Rightarrow>
                        if StatusCode r \<noteq> 200 then
                          (if Error_Code weatherResp = 1006 then (Err ErrCityNotFound, s')
                           else (Err (Errorf [] ErrWeatherAPIFailed
                                        ('': '' @ Error_Message weatherResp)), s'))
                        else
                          let tempC = Current_TempC weatherResp;
                              tempF = (if Current_TempF weatherResp \<noteq> Finite 0 0
                                       then Current_TempF weatherResp
                                       else fadd (fmul tempC (round64 9 5)) (float64_of_int 32));
                              tempK = fadd tempC (round64 5463 20)
                          in (Ok \<lparr>TempC = round_go tempC 2, TempF = round_go tempF 2,
                                   TempK = round_go tempK 2\<rparr>, s'))))"

subsection \<open>The handlers\<close>

text \<open>
  What a handler writes: \<open>Reply code payload\<close> is \<open>WriteHeader(code)\<close> followed by the
  JSON encoding of the payload (\<open>ErrorResponse m\<close> is encoded as \<open>{"error":"m"}\<close>),
  \<open>Relay code bytes\<close> is \<open>WriteHeader(code)\<close> followed by \<open>Write(bytes)\<close>, and
  \<open>NoReply\<close> is a handler that panicked before it wrote anything.
\<close>

datatype payload =
    WeatherResponse string float64 float64 float64
  | ErrorResponse string

datatype reply = Reply int payload | Relay int string | NoReply

text \<open>\<open>json.Marshal\<close> fails on a number that is not finite, and on nothing else here.\<close>

fun finite64 :: "float64 \<Rightarrow> bool" where
  "finite64 (Finite m e) = True"
| "finite64 x = False"

fun marshals :: "payload \<Rightarrow> bool" where
  "marshals (WeatherResponse city c f k) = (finite64 c \<and> finite64 f \<and> finite64 k)"
| "marshals (ErrorResponse m) = True"

definition respondWithJSON :: "int \<Rightarrow> payload \<Rightarrow> reply" where
  "respondWithJSON code p =
     (if \<not> marshals p then Reply 500 (ErrorResponse ''internal server error'')
      else Reply code p)"

definition respondWithError :: "int \<Rightarrow> string \<Rightarrow> reply" where
  "respondWithError code message = respondWithJSON code (ErrorResponse message)"

definition handleCEPError :: "error \<Rightarrow> reply" where
  "handleCEPError err =
     (if Is err ErrInvalidZipCode then respondWithError 422 ''invalid zipcode''
      else if Is err ErrZipCodeNotFound then respondWithError 404 ''can not find zipcode''
      else respondWithError 500 ''internal server error'')"

definition handleWeatherError :: "error \<Rightarrow> reply" where
  "handleWeatherError err =
     (if Is err ErrAPIKeyNotConfigured
      then respondWithError 500 ''weather service configuration error''
      else if Is err ErrCityNotFound
      then respondWithError 404 ''city not found in weather service''
      else respondWithError 500 ''failed to get weather data'')"

definition processWeatherRequest :: "world \<Rightarrow> string \<Rightarrow> effects \<Rightarrow> reply \<times> effects" where
  "processWeatherRequest w cep s =
     (if length cep \<noteq> 8 then (respondWithError 422 ''invalid zipcode'', s)
      else
        case GetCityByCEP w cep s of
          (Err err, s1) \<Rightarrow> (handleCEPError err, s1)
        | (Panic, s1) \<Rightarrow> (NoReply, s1)
        | (Ok city, s1) \<Rightarrow>
            (case GetTemperature w city s1 of
               (Err err, s2) \<Rightarrow> (handleWeatherError err, s2)
             | (Panic, s2) \<Rightarrow> (NoReply, s2)
             | (Ok temp, s2) \<Rightarrow>
                 (respondWithJSON 200
                    (WeatherResponse city (TempC temp) (TempF temp) (TempK temp)), s2)))"

text \<open>
  The two entry points: \<open>GET /weather/{cep}\<close>, whose argument is the path parameter, and
  \<open>POST /weather\<close>, whose argument is the result of reading the request's body.
\<close>

definition GetWeatherByCEP :: "world \<Rightarrow> string \<Rightarrow> effects \<Rightarrow> reply \<times> effects" where
  "GetWeatherByCEP w cep s = processWeatherRequest w (normalizeCEP cep) s"

definition GetWeatherByCEPPost ::
  "world \<Rightarrow> neterr + string \<Rightarrow> effects \<Rightarrow> reply \<times> effects" where
  "GetWeatherByCEPPost w body s =
     (case body of
        Inl e \<Rightarrow> (respondWithError 400 ''invalid request body'', s)
      | Inr b \<Rightarrow>
          (case Unmarshal_CepRequest w b of
             Inl e \<Rightarrow> (respondWithError 400 ''invalid request format'', s)
           | Inr cep \<Rightarrow> processWeatherRequest w (normalizeCEP cep) s))"

section \<open>The edge service: forwarding\<close>

text \<open>
  What the edge service reads from outside: the address of the internal service, the
  JSON functions, the construction of the request (from the address and the body), and
  the HTTP client of \<open>callServiceB\<close> (from the number of earlier calls, the address and the
  body).
\<close>

record app =
  ServiceBURL :: string
  app_Unmarshal_CepRequest :: "string \<Rightarrow> neterr + string"
  app_Marshal_CepRequest :: "string \<Rightarrow> neterr + string"
  app_NewRequest :: "string \<Rightarrow> string \<Rightarrow> neterr option"
  app_Do :: "nat \<Rightarrow> string \<Rightarrow> string \<Rightarrow> do_result"

definition callServiceB :: "app \<Rightarrow> string \<Rightarrow> effects \<Rightarrow> (error + string \<times> int) \<times> effects" where
  "callServiceB a cep s =
     (case app_Marshal_CepRequest a cep of
        Inl e \<Rightarrow> (Inl (Errorf ''failed to marshal request: '' (External e) []), s)
      | Inr reqBody \<Rightarrow>
          (case app_NewRequest a (ServiceBURL a) reqBody of
             Some e \<Rightarrow> (Inl (Errorf ''failed to create request: '' (External e) []), s)
           | None \<Rightarrow>
               (case app_Do a (calls s) (ServiceBURL a) reqBody of
                  Failed r e \<Rightarrow> (Inl (Errorf ''request failed: '' (External e) []), called s)
                | Resp resp \<Rightarrow>
                    (case Body resp of
                       Inl e \<Rightarrow>
                         (Inl (Errorf ''failed to read response: '' (External e) []), called s)
                     | Inr respBody \<Rightarrow> (Inr (respBody, StatusCode resp), called s)))))"

text \<open>
  The edge service's \<open>respondWithError\<close> encodes an \<open>ErrorResponse\<close> with a JSON encoder,
  which cannot fail on a string.
\<close>

definition app_respondWithError :: "int \<Rightarrow> string \<Rightarrow> reply" where
  "app_respondWithError code message = Reply code (ErrorResponse message)"

definition HandleWeatherRequest ::
  "app \<Rightarrow> string \<Rightarrow> neterr + string \<Rightarrow> effects \<Rightarrow> reply \<times> effects" where
  "HandleWeatherRequest a httpMethod body s =
     (if httpMethod \<noteq> ''POST''
      then (app_respondWithError 405 ''only POST method is allowed'', s)
      else
        case body of
          Inl e \<Rightarrow> (app_respondWithError 400 ''invalid request body'', s)
        | Inr b \<Rightarrow>
            (case app_Unmarshal_CepRequest a b of
               Inl e \<Rightarrow> (app_respondWithError 400 ''invalid request format'', s)
             | Inr cep \<Rightarrow>
                 if \<not> isValidCEP cep then (app_respondWithError 422 ''invalid zipcode'', s)
                 else
                   (case callServiceB a cep s of
                      (Inl err, s1) \<Rightarrow>
                        (app_respondWithError 500 (''error calling service B: '' @ Error err), s1)
                    | (Inr (response, statusCode), s1) \<Rightarrow> (Relay statusCode response, s1))))"

section \<open>Notions used in the statements\<close>

text \<open>The address \<open>GetTemperature\<close> requests: \<open>fmt.Sprintf("%s?key=%s&q=%s", ...)\<close>.\<close>

definition reqURL_of :: "world \<Rightarrow> string \<Rightarrow> string" where
  "reqURL_of w city =
     ''https://api.weatherapi.com/v1/current.json'' @ ''?key='' @ WEATHER_API_KEY w
       @ ''&q='' @ QueryEscape w city"

text \<open>The address \<open>GetCityByCEP\<close> requests: \<open>fmt.Sprintf(s.baseURL, cep)\<close>.\<close>

definition geoURL :: "string \<Rightarrow> string" where
  "geoURL cep = ''https://viacep.com.br/ws/'' @ normalizeCEP cep @ ''/json/''"

text \<open>A call of the client failed: it returned a non-nil error.\<close>

definition failed :: "do_result \<Rightarrow> bool" where
  "failed r = (case r of Failed x e \<Rightarrow> True | Resp x \<Rightarrow> False)"

text \<open>What \<open>GetTemperature\<close> does with the variables the retry loop leaves.\<close>

definition after_loop ::
  "world \<Rightarrow> http_response option \<times> error option \<times> effects \<Rightarrow> Temperature outcome \<times> effects" where
  "after_loop w x =
     (case x of (resp, err, s') \<Rightarrow>
      (case err of
         Some e \<Rightarrow> (Err (Errorf ''all weather API requests failed: '' e []), s')
       | None \<Rightarrow>
           (case resp of
              None \<Rightarrow> (Panic, s')
            | Some r \<Rightarrow>
                (case (case Body r of Inl e \<Rightarrow> Inl e
                       | Inr b \<Rightarrow> Decode_WeatherAPIResponse w b) of
                   Inl e \<Rightarrow>
                     (Err (Errorf ''failed to decode API response: '' (External e) []), s')
                 | Inr weatherResp \<Rightarrow>
                     if StatusCode r \<noteq> 200 then
                       (if Error_Code weatherResp = 1006 then (Err ErrCityNotFound, s')
                        else (Err (Errorf [] ErrWeatherAPIFailed
                                     ('': '' @ Error_Message weatherResp)), s'))
                     else
                       let tempC = Current_TempC weatherResp;
                           tempF = (if Current_TempF weatherResp \<noteq> Finite 0 0
                                    then Current_TempF weatherResp
                                    else fadd (fmul tempC (round64 9 5)) (float64_of_int 32));
                           tempK = fadd tempC (round64 5463 20)
                       in (Ok \<lparr>TempC = round_go tempC 2, TempF = round_go tempF 2,
                                TempK = round_go tempK 2\<rparr>, s')))))"

text \<open>The reply of both services to a postal code they reject.\<close>

definition invalid_zipcode :: reply where
  "invalid_zipcode = Reply 422 (ErrorResponse ''invalid zipcode'')"

section \<open>Example surroundings\<close>

text \<open>
  Concrete surroundings on which the theorems are instantiated: no effects so far; a
  world built from an API key, a client, and the results of the two decoders; a client
  call that is refused; a response with a status code; a decoded weather response.
\<close>

definition s0 :: effects where
  "s0 = \<lparr>calls = 0, slept = []\<rparr>"

definition example_world ::
  "string \<Rightarrow> (nat \<Rightarrow> string \<Rightarrow> do_result) \<Rightarrow> neterr + ViaCEPResponse
     \<Rightarrow> neterr + WeatherAPIResponse \<Rightarrow> world" where
  "example_world key client geo weather =
     \<lparr>WEATHER_API_KEY = key, QueryEscape = (\<lambda>city. city), NewRequest = (\<lambda>url. None),
      Do = client, Unmarshal_ViaCEPResponse = (\<lambda>b. geo),
      Decode_WeatherAPIResponse = (\<lambda>b. weather),
      Unmarshal_CepRequest = (\<lambda>b. Inl (NetErr ''unexpected end of JSON input''))\<rparr>"

definition no_json :: "neterr + 'a" where
  "no_json = Inl (NetErr ''unexpected end of JSON input'')"

definition refused :: do_result where
  "refused = Failed None (NetErr ''connection refused'')"

definition answer :: "int \<Rightarrow> do_result" where
  "answer code = Resp \<lparr>StatusCode = code, Body = Inr ''{}''\<rparr>"

text \<open>Clients that give the same result to every call.\<close>

definition always :: "do_result \<Rightarrow> nat \<Rightarrow> string \<Rightarrow> do_result" where
  "always r n url = r"

definition app_always :: "do_result \<Rightarrow> nat \<Rightarrow> string \<Rightarrow> string \<Rightarrow> do_result" where
  "app_always r n url body = r"

definition weather_json :: "float64 \<Rightarrow> float64 \<Rightarrow> int \<Rightarrow> string \<Rightarrow> neterr + WeatherAPIResponse" where
  "weather_json c f code msg =
     Inr \<lparr>Current_TempC = c, Current_TempF = f, Error_Code = code, Error_Message = msg\<rparr>"

definition flaky_world :: world where
  "flaky_world =
     example_world ''key'' (\<lambda>n url. if n < 2 then refused else answer 200) no_json no_json"

definition viacep_json :: "bool \<Rightarrow> string \<Rightarrow> neterr + ViaCEPResponse" where
  "viacep_json erro city =
     Inr \<lparr>Cep = [], Logradouro = [], Complemento = [], Bairro = [], Localidade = city,
          UF = [], Erro = erro\<rparr>"

definition geo_world :: "(nat \<Rightarrow> string \<Rightarrow> do_result) \<Rightarrow> neterr + ViaCEPResponse \<Rightarrow> world" where
  "geo_world client geo = example_world ''key'' client geo no_json"

definition not_found_world :: world where
  "not_found_world =
     example_world ''key'' (always (answer 400)) no_json
       (weather_json (Finite 0 0) (Finite 0 0) 1006 ''No matching location found.'')"

definition bad_key_world :: world where
  "bad_key_world =
     example_world ''key'' (always (answer 401)) no_json
       (weather_json (Finite 0 0) (Finite 0 0) 2006 ''API key provided is invalid'')"

text \<open>Surroundings of the edge service, from the postal code its decoder finds in the
  request and the client of \<open>callServiceB\<close>.\<close>

definition example_app :: "string \<Rightarrow> (nat \<Rightarrow> string \<Rightarrow> string \<Rightarrow> do_result) \<Rightarrow> app" where
  "example_app cep client =
     \<lparr>ServiceBURL = ''http://svc-b:8081/weather'',
      app_Unmarshal_CepRequest = (\<lambda>b. Inr cep),
      app_Marshal_CepRequest = (\<lambda>c. Inr c),
      app_NewRequest = (\<lambda>url body. None),
      app_Do = client\<rparr>"

text \<open>
  A world where every request is answered with status 200, the geocoding response names a
  city, and the weather response has the given Celsius and Fahrenheit values.
\<close>

definition weather_world :: "float64 \<Rightarrow> float64 \<Rightarrow> world" where
  "weather_world c f =
     example_world ''key'' (always (answer 200)) no_json (weather_json c f 0 [])"


definition happy_world :: world where
  "happy_world =
     example_world ''key'' (always (answer 200)) (viacep_json False ''Rio de Janeiro'')
       (weather_json (Finite 25 0) (Finite 0 0) 0 [])"

text \<open>A world where no request can be constructed.\<close>

definition unbuildable_world :: world where
  "unbuildable_world =
     (example_world ''key'' (always refused) no_json no_json)
       \<lparr>NewRequest := (\<lambda>url. Some (NetErr ''invalid URL escape''))\<rparr>"

section \<open>Validation: lemmas\<close>

lemma ReplaceAll_byte: "ReplaceAll s [c] [] = filter (\<lambda>x. x \<noteq> c) s"
  by (induction s) auto

lemma normalizeCEP_filter:
  "normalizeCEP cep = filter (\<lambda>x. x \<noteq> CHR ''-'' \<and> x \<noteq> CHR ''.'') cep"
  by (simp add: normalizeCEP_def ReplaceAll_byte conj_commute)

lemma normalizeCEP_idem: "normalizeCEP (normalizeCEP cep) = normalizeCEP cep"
  by (simp add: normalizeCEP_filter)

lemma isDigit_not_separator: "isDigit c \<Longrightarrow> c \<noteq> CHR ''-'' \<and> c \<noteq> CHR ''.''"
  by (auto simp: isDigit_def)

lemma normalizeCEP_digits: "\<forall>c\<in>set cep. isDigit c \<Longrightarrow> normalizeCEP cep = cep"
  unfolding normalizeCEP_filter
  by (rule filter_True) (auto dest: isDigit_not_separator)

lemma mod_in_block:
  fixes b :: nat
  assumes "q * m + l \<le> b" and "b < q * m + m"
  shows "l \<le> b mod m"
proof -
  from assms obtain k where k: "b = q * m + k"
    using le_Suc_ex [of "q * m" b] by auto
  with assms have "l \<le> k" "k < m" by auto
  moreover have "b mod m = k mod m"
    unfolding k by (rule mod_mult_self3)
  ultimately show ?thesis by simp
qed

lemma rune2_high: "194 \<le> b0 \<Longrightarrow> b0 < 224 \<Longrightarrow> 57 < rune2 b0 b1"
  using mod_in_block [of 6 32 2 b0] by (simp add: rune2_def)

lemma rune3_high:
  assumes "224 \<le> b0" "b0 < 240" "b0 = 224 \<Longrightarrow> 160 \<le> b1" "b1 \<le> 191"
  shows "57 < rune3 b0 b1 b2"
proof (cases "b0 = 224")
  case True
  with assms have "32 \<le> b1 mod 64" using mod_in_block [of 2 64 32 b1] by simp
  then show ?thesis by (simp add: rune3_def)
next
  case False
  with assms have "1 \<le> b0 mod 16" using mod_in_block [of 14 16 1 b0] by simp
  then show ?thesis by (simp add: rune3_def)
qed

lemma rune4_high:
  assumes "240 \<le> b0" "b0 \<le> 244" "b0 = 240 \<Longrightarrow> 144 \<le> b1" "b1 \<le> 191"
  shows "57 < rune4 b0 b1 b2 b3"
proof (cases "b0 = 240")
  case True
  with assms have "16 \<le> b1 mod 64" using mod_in_block [of 2 64 16 b1] by simp
  then show ?thesis by (simp add: rune4_def)
next
  case False
  with assms have "1 \<le> b0 mod 8" using mod_in_block [of 30 8 1 b0] by simp
  then show ?thesis by (simp add: rune4_def)
qed

lemma DecodeRune_high: 
  assumes "128 \<le> b0" shows "57 < fst (DecodeRune (b0 # bs))"
proof -
  consider (bad) "b0 < 194 \<or> 244 < b0" | (two) "194 \<le> b0" "b0 < 224"
    | (three) "224 \<le> b0" "b0 < 240" | (four) "240 \<le> b0" "b0 \<le> 244"
    by arith
  then show ?thesis
  proof cases
    case bad
    then show ?thesis using assms by (auto simp: RuneError_def)
  next
    case two
    then show ?thesis by (simp add: Let_def RuneError_def rune2_high)
  next
    case three
    then show ?thesis by (auto simp: Let_def RuneError_def intro!: rune3_high)
  next
    case four
    then show ?thesis by (auto simp: Let_def RuneError_def intro!: rune4_high)
  qed
qed

lemma isValidCEP_loop_Cons:
  "isValidCEP_loop (c # cs) \<longleftrightarrow> isDigit c \<and> isValidCEP_loop cs"
proof (cases "(of_char c :: nat) < 128")
  case True
  then have "DecodeRune (map of_char (c # cs)) = (of_char c, 1)" by simp
  then show ?thesis
    by (subst isValidCEP_loop.simps) (auto simp: isDigit_def Let_def)
next
  case False
  then have "57 < fst (DecodeRune (map of_char (c # cs)))"
    using DecodeRune_high [of "of_char c" "map of_char cs"] by simp
  moreover have "\<not> isDigit c" using False by (simp add: isDigit_def)
  ultimately show ?thesis
    by (subst isValidCEP_loop.simps) (simp add: Let_def)
qed

lemma isValidCEP_loop_Nil: "isValidCEP_loop []"
  by (subst isValidCEP_loop.simps) simp

lemma isValidCEP_loop_iff: "isValidCEP_loop s \<longleftrightarrow> (\<forall>c\<in>set s. isDigit c)"
  by (induction s) (simp_all add: isValidCEP_loop_Nil isValidCEP_loop_Cons)

lemma isValidCEP_iff: "isValidCEP cep \<longleftrightarrow> length cep = 8 \<and> (\<forall>c\<in>set cep. isDigit c)"
  by (simp add: isValidCEP_def isValidCEP_loop_iff)

section \<open>The retry loop: lemmas\<close>

lemma retry_loop_done:
  "\<not> a \<le> maxRetries \<Longrightarrow> retry_loop w u a resp err s = (resp, err, s)"
  by (subst retry_loop.simps) simp

lemma retry_loop_NewRequest:
  "a \<le> maxRetries \<Longrightarrow> NewRequest w u = Some e \<Longrightarrow>
   retry_loop w u a resp err s = retry_loop w u (a + 1) resp err (Sleep (a * 100) s)"
  by (subst retry_loop.simps) simp

lemma retry_loop_Resp:
  "a \<le> maxRetries \<Longrightarrow> NewRequest w u = None \<Longrightarrow> Do w (calls s) u = Resp r \<Longrightarrow>
   retry_loop w u a resp err s = (Some r, err, called s)"
  by (subst retry_loop.simps) simp

lemma retry_loop_Failed:
  "a \<le> maxRetries \<Longrightarrow> NewRequest w u = None \<Longrightarrow> Do w (calls s) u = Failed r e \<Longrightarrow>
   retry_loop w u a resp err s =
     retry_loop w u (a + 1) r err
       (if a < maxRetries then Sleep (a * 100) (called s) else called s)"
  by (subst retry_loop.simps) simp

lemma retry_loop_err: "fst (snd (retry_loop w u a resp err s)) = err"
proof (induction w u a resp err s rule: retry_loop.induct)
  case (1 w u a resp err s)
  show ?case
  proof (cases "a \<le> maxRetries")
    case False
    then show ?thesis by (simp add: retry_loop_done)
  next
    case le: True
    show ?thesis
    proof (cases "NewRequest w u")
      case (Some e)
      then show ?thesis using le 1(2) [OF le Some] by (simp add: retry_loop_NewRequest)
    next
      case None
      show ?thesis
      proof (cases "Do w (calls s) u")
        case (Resp r)
        then show ?thesis using le None by (simp add: retry_loop_Resp)
      next
        case (Failed r e)
        then show ?thesis
          using le None 1(1) [OF le None Failed] by (simp add: retry_loop_Failed)
      qed
    qed
  qed
qed

lemma calls_Sleep: "calls (Sleep ms s) = calls s"
  by (simp add: Sleep_def)

lemma calls_called: "calls (called s) = Suc (calls s)"
  by (simp add: called_def)

lemma retry_loop_calls:
  "a \<le> Suc maxRetries \<Longrightarrow>
   calls s \<le> calls (snd (snd (retry_loop w u a resp err s))) \<and>
   calls (snd (snd (retry_loop w u a resp err s))) + a \<le> calls s + Suc maxRetries"
proof (induction w u a resp err s rule: retry_loop.induct)
  case (1 w u a resp err s)
  show ?case
  proof (cases "a \<le> maxRetries")
    case False
    then show ?thesis using 1(3) by (simp add: retry_loop_done)
  next
    case le: True
    show ?thesis
    proof (cases "NewRequest w u")
      case (Some e)
      then show ?thesis
        using le 1(2) [OF le Some] by (simp add: retry_loop_NewRequest calls_Sleep)
    next
      case None
      show ?thesis
      proof (cases "Do w (calls s) u")
        case (Resp r)
        then show ?thesis using le None by (simp add: retry_loop_Resp calls_called)
      next
        case (Failed r e)
        then show ?thesis
          using le None 1(1) [OF le None Failed]
          by (auto simp add: retry_loop_Failed calls_called calls_Sleep split: if_splits)
      qed
    qed
  qed
qed

lemma retry_loop_mono: "calls s \<le> calls (snd (snd (retry_loop w u a resp err s)))"
proof (cases "a \<le> Suc maxRetries")
  case True
  then show ?thesis using retry_loop_calls by blast
next
  case False
  then show ?thesis by (simp add: retry_loop_done)
qed

lemma retry_loop_progress:
  assumes "a \<le> maxRetries" and "NewRequest w u = None"
  shows "calls s < calls (snd (snd (retry_loop w u a resp err s)))"
proof (cases "Do w (calls s) u")
  case (Resp r)
  then show ?thesis using assms by (simp add: retry_loop_Resp calls_called)
next
  case (Failed r e)
  let ?s1 = "if a < maxRetries then Sleep (a * 100) (called s) else called s"
  have "calls ?s1 = Suc (calls s)" by (simp add: calls_called calls_Sleep)
  then show ?thesis
    using assms Failed retry_loop_mono [of ?s1 w u "a + 1" r err]
    by (simp add: retry_loop_Failed)
qed

text \<open>Every call of the client that is followed by another call failed.\<close>

lemma retry_loop_retries:
  "calls s \<le> j \<Longrightarrow> Suc j < calls (snd (snd (retry_loop w u a resp err s))) \<Longrightarrow>
   failed (Do w j u)"
proof (induction w u a resp err s rule: retry_loop.induct)
  case (1 w u a resp err s)
  show ?case
  proof (cases "a \<le> maxRetries")
    case False
    then show ?thesis using 1(3,4) by (simp add: retry_loop_done)
  next
    case le: True
    show ?thesis
    proof (cases "NewRequest w u")
      case (Some e)
      then show ?thesis
        using le 1(2) [OF le Some] 1(3,4) by (simp add: retry_loop_NewRequest calls_Sleep)
    next
      case None
      show ?thesis
      proof (cases "Do w (calls s) u")
        case (Resp r)
        then show ?thesis using le None 1(3,4) by (simp add: retry_loop_Resp calls_called)
      next
        case (Failed r e)
        show ?thesis
        proof (cases "j = calls s")
          case True
          then show ?thesis using Failed by (simp add: failed_def)
        next
          case False
          then show ?thesis
            using le None Failed 1(1) [OF le None Failed] 1(3,4)
            by (auto simp add: retry_loop_Failed calls_called calls_Sleep split: if_splits)
        qed
      qed
    qed
  qed
qed

text \<open>When the loop ends with a response and no client error, that response is what the last call returned.\<close>

lemma retry_loop_resp:
  "retry_loop w u a resp err s = (resp', err', s') \<Longrightarrow> calls s < calls s' \<Longrightarrow>
   (case Do w (calls s' - 1) u of Resp r \<Rightarrow> resp' = Some r | Failed r e \<Rightarrow> resp' = r)"
proof (induction w u a resp err s rule: retry_loop.induct)
  case (1 w u a resp err s)
  show ?case
  proof (cases "a \<le> maxRetries")
    case False
    then show ?thesis using 1(3,4) by (simp add: retry_loop_done)
  next
    case le: True
    show ?thesis
    proof (cases "NewRequest w u")
      case (Some e)
      then show ?thesis
        using le 1(2) [OF le Some] 1(3,4) by (simp add: retry_loop_NewRequest calls_Sleep)
    next
      case None
      show ?thesis
      proof (cases "Do w (calls s) u")
        case (Resp r)
        then show ?thesis using le None 1(3,4) by (auto simp add: retry_loop_Resp calls_called)
      next
        case (Failed r e)
        let ?s1 = "if a < maxRetries then Sleep (a * 100) (called s) else called s"
        have c1: "calls ?s1 = Suc (calls s)" by (simp add: calls_called calls_Sleep)
        have eq: "retry_loop w u (a + 1) r err ?s1 = (resp', err', s')"
          using le None Failed 1(3) by (simp add: retry_loop_Failed)
        show ?thesis
        proof (cases "calls ?s1 < calls s'")
          case True
          then show ?thesis using 1(1) [OF le None Failed eq] by simp
        next
          case False
          moreover have "calls ?s1 \<le> calls s'"
            using retry_loop_mono [of ?s1 w u "a + 1" r err] eq by simp
          ultimately have last: "calls s' = Suc (calls s)" using c1 by simp
          have "\<not> a + 1 \<le> maxRetries"
            using retry_loop_progress [of "a + 1" w u ?s1 r err] None eq False by auto
          then have "resp' = r" using eq by (simp add: retry_loop_done)
          then show ?thesis using last Failed by simp
        qed
      qed
    qed
  qed
qed

lemma GetTemperature_unfold:
  "GetTemperature w city s =
     (if WEATHER_API_KEY w = [] then (Err ErrAPIKeyNotConfigured, s)
      else after_loop w (retry_loop w (reqURL_of w city) 1 None None s))"
  by (simp add: GetTemperature_def after_loop_def reqURL_of_def Let_def)

lemma snd_after_loop: "snd (after_loop w (resp, err, s')) = s'"
  by (simp add: after_loop_def Let_def split: option.splits sum.splits)

lemma GetTemperature_effects:
  "snd (GetTemperature w city s) =
     (if WEATHER_API_KEY w = [] then s
      else snd (snd (retry_loop w (reqURL_of w city) 1 None None s)))"
proof -
  obtain resp err s' where "retry_loop w (reqURL_of w city) 1 None None s = (resp, err, s')"
    by (cases "retry_loop w (reqURL_of w city) 1 None None s") auto
  then show ?thesis
    by (simp add: GetTemperature_unfold snd_after_loop)
qed

section \<open>The weather client: claims\<close>

text \<open>
  Claim C8. For every city, when the environment variable \<open>WEATHER_API_KEY\<close> is empty,
  \<open>GetTemperature\<close> returns \<open>ErrAPIKeyNotConfigured\<close>, which the handler answers with
  status 500, and the effects are unchanged: the HTTP client is not called (and nothing
  sleeps).
\<close>

theorem GetTemperature_without_key:
  assumes "WEATHER_API_KEY w = []"
  shows "GetTemperature w city s = (Err ErrAPIKeyNotConfigured, s)
     \<and> handleWeatherError ErrAPIKeyNotConfigured
         = Reply 500 (ErrorResponse ''weather service configuration error'')"
  using assms
  by (simp add: GetTemperature_def handleWeatherError_def respondWithError_def
      respondWithJSON_def)

theorem GetTemperature_without_key_witness:
  "GetTemperature (example_world [] (always refused) no_json no_json) ''Lisboa'' s0
     = (Err ErrAPIKeyNotConfigured, s0)
   \<and> handleWeatherError ErrAPIKeyNotConfigured
       = Reply 500 (ErrorResponse ''weather service configuration error'')"
  using GetTemperature_without_key [of "example_world [] (always refused) no_json no_json" "''Lisboa''" s0]
  by (simp add: example_world_def)

text \<open>
  Claim C4. In every run of \<open>GetTemperature\<close> the HTTP client is called at most three
  times; every call that is followed by another call failed (it returned an error); and
  a call that returned a response, whatever its status code, is the last one.
\<close>

theorem GetTemperature_attempts:
  "calls s \<le> calls (snd (GetTemperature w city s))
   \<and> calls (snd (GetTemperature w city s)) \<le> calls s + 3
   \<and> (\<forall>j. calls s \<le> j \<and> Suc j < calls (snd (GetTemperature w city s))
          \<longrightarrow> failed (Do w j (reqURL_of w city)))
   \<and> (\<forall>j r. calls s \<le> j \<and> j < calls (snd (GetTemperature w city s))
          \<and> Do w j (reqURL_of w city) = Resp r
          \<longrightarrow> Suc j = calls (snd (GetTemperature w city s)))"
proof (cases "WEATHER_API_KEY w = []")
  case True
  then show ?thesis by (auto simp add: GetTemperature_effects)
next
  case False
  let ?u = "reqURL_of w city"
  let ?s' = "snd (snd (retry_loop w ?u 1 None None s))"
  have eff: "snd (GetTemperature w city s) = ?s'"
    using False by (simp add: GetTemperature_effects)
  have bounds: "calls s \<le> calls ?s'" "calls ?s' \<le> calls s + 3"
    using retry_loop_calls [of 1 s w ?u None None] by (simp_all add: maxRetries_def)
  have retries: "failed (Do w j ?u)" if "calls s \<le> j" "Suc j < calls ?s'" for j
    using that by (rule retry_loop_retries)
  have last: "Suc j = calls ?s'"
    if "calls s \<le> j" "j < calls ?s'" "Do w j ?u = Resp r" for j r
  proof (rule ccontr)
    assume "Suc j \<noteq> calls ?s'"
    with that have "Suc j < calls ?s'" by simp
    with that(1) have "failed (Do w j ?u)" by (rule retries)
    with that(3) show False by (simp add: failed_def)
  qed
  show ?thesis
    unfolding eff using bounds retries last by blast
qed


theorem GetTemperature_attempts_witness:
  "calls s0 \<le> 0
   \<and> Suc 0 < calls (snd (GetTemperature flaky_world ''Lisboa'' s0))
   \<and> failed (Do flaky_world 0 (reqURL_of flaky_world ''Lisboa''))
   \<and> calls s0 \<le> 2
   \<and> Do flaky_world 2 (reqURL_of flaky_world ''Lisboa'') = answer 200
   \<and> Suc 2 = calls (snd (GetTemperature flaky_world ''Lisboa'' s0))
   \<and> calls (snd (GetTemperature flaky_world ''Lisboa'' s0)) \<le> calls s0 + 3"
proof -
  have c: "calls (snd (GetTemperature flaky_world ''Lisboa'' s0)) = 3"
    by code_simp
  have d: "Do flaky_world 2 (reqURL_of flaky_world ''Lisboa'') = answer 200"
    by (simp add: flaky_world_def example_world_def)
  have z: "calls s0 = 0"
    by (simp add: s0_def)
  show ?thesis
    using GetTemperature_attempts [of s0 flaky_world "''Lisboa''"] c d z
    by (auto simp: answer_def)
qed

text \<open>
  Claim C7. When the last call of the client returned a response whose body was read
  and decoded, \<open>GetTemperature\<close> returns \<open>ErrCityNotFound\<close> exactly when the status is
  not 200 and the decoded error code is 1006, and for any other status that is not 200 it
  returns \<open>ErrWeatherAPIFailed\<close> wrapped with the upstream's message; the handler answers
  the former with status 404 and the latter with status 500.
\<close>

theorem GetTemperature_classification:
  assumes "WEATHER_API_KEY w \<noteq> []"
    and "calls s < calls (snd (GetTemperature w city s))"
    and "Do w (calls (snd (GetTemperature w city s)) - 1) (reqURL_of w city) = Resp r"
    and "Body r = Inr b"
    and "Decode_WeatherAPIResponse w b = Inr v"
  shows "(fst (GetTemperature w city s) = Err ErrCityNotFound
            \<longleftrightarrow> StatusCode r \<noteq> 200 \<and> Error_Code v = 1006)
       \<and> (StatusCode r \<noteq> 200 \<and> Error_Code v \<noteq> 1006 \<longrightarrow>
            fst (GetTemperature w city s)
              = Err (Errorf [] ErrWeatherAPIFailed ('': '' @ Error_Message v)))
       \<and> Error (Errorf [] ErrWeatherAPIFailed ('': '' @ Error_Message v))
            = ''weather API request failed: '' @ Error_Message v
       \<and> handleWeatherError ErrCityNotFound
            = Reply 404 (ErrorResponse ''city not found in weather service'')
       \<and> handleWeatherError (Errorf [] ErrWeatherAPIFailed ('': '' @ Error_Message v))
            = Reply 500 (ErrorResponse ''failed to get weather data'')"
proof -
  obtain resp err s' where
    loop: "retry_loop w (reqURL_of w city) 1 None None s = (resp, err, s')"
    by (cases "retry_loop w (reqURL_of w city) 1 None None s") auto
  have s': "snd (GetTemperature w city s) = s'"
    using assms(1) loop by (simp add: GetTemperature_effects)
  have "err = None"
    using retry_loop_err [of w "reqURL_of w city" 1 None None s] loop by simp
  moreover have "resp = Some r"
    using retry_loop_resp [OF loop] assms(2,3) s' by simp
  ultimately have "GetTemperature w city s = after_loop w (Some r, None, s')"
    using assms(1) loop by (simp add: GetTemperature_unfold)
  then have res: "fst (GetTemperature w city s) =
      (if StatusCode r \<noteq> 200
       then (if Error_Code v = 1006 then Err ErrCityNotFound
             else Err (Errorf [] ErrWeatherAPIFailed ('': '' @ Error_Message v)))
       else Ok \<lparr>TempC = round_go (Current_TempC v) 2,
                TempF = round_go (if Current_TempF v \<noteq> Finite 0 0 then Current_TempF v
                                  else fadd (fmul (Current_TempC v) (round64 9 5))
                                         (float64_of_int 32)) 2,
                TempK = round_go (fadd (Current_TempC v) (round64 5463 20)) 2\<rparr>)"
    using assms(4,5) by (simp add: after_loop_def Let_def)
  show ?thesis
    by (simp add: res handleWeatherError_def respondWithError_def respondWithJSON_def)
qed

theorem GetTemperature_classification_witness:
  "fst (GetTemperature not_found_world ''Atlantis'' s0) = Err ErrCityNotFound
   \<and> fst (GetTemperature bad_key_world ''Lisboa'' s0)
       = Err (Errorf [] ErrWeatherAPIFailed '': API key provided is invalid'')"
proof -
  let ?v = "\<lparr>Current_TempC = Finite 0 0, Current_TempF = Finite 0 0, Error_Code = 1006,
              Error_Message = ''No matching location found.''\<rparr>"
  let ?v' = "\<lparr>Current_TempC = Finite 0 0, Current_TempF = Finite 0 0, Error_Code = 2006,
              Error_Message = ''API key provided is invalid''\<rparr>"
  have k: "WEATHER_API_KEY not_found_world \<noteq> []" "WEATHER_API_KEY bad_key_world \<noteq> []"
    by (simp_all add: not_found_world_def bad_key_world_def example_world_def)
  have c: "calls (snd (GetTemperature not_found_world ''Atlantis'' s0)) = 1"
    "calls (snd (GetTemperature bad_key_world ''Lisboa'' s0)) = 1"
    by code_simp+
  have z: "calls s0 = 0" by (simp add: s0_def)
  have d: "Do not_found_world 0 (reqURL_of not_found_world ''Atlantis'')
             = Resp \<lparr>StatusCode = 400, Body = Inr ''{}''\<rparr>"
    "Do bad_key_world 0 (reqURL_of bad_key_world ''Lisboa'')
             = Resp \<lparr>StatusCode = 401, Body = Inr ''{}''\<rparr>"
    by (simp_all add: not_found_world_def bad_key_world_def example_world_def always_def
        answer_def)
  have j: "Decode_WeatherAPIResponse not_found_world ''{}'' = Inr ?v"
    "Decode_WeatherAPIResponse bad_key_world ''{}'' = Inr ?v'"
    by (simp_all add: not_found_world_def bad_key_world_def example_world_def weather_json_def)
  show ?thesis
    using GetTemperature_classification
            [of not_found_world s0 "''Atlantis''" "\<lparr>StatusCode = 400, Body = Inr ''{}''\<rparr>"
                "''{}''" ?v]
          GetTemperature_classification
            [of bad_key_world s0 "''Lisboa''" "\<lparr>StatusCode = 401, Body = Inr ''{}''\<rparr>"
                "''{}''" ?v']
          k c z d j
    by simp
qed

text \<open>
  Claim C3, at two inputs where it fails. The API key is set and each of the three calls
  of the client is refused (a nil response with an error): \<open>GetTemperature\<close> makes the
  three calls, sleeps 100 and 200 milliseconds between them, and then panics. The test
  \<open>err != nil\<close> after the loop reads the outer \<open>err\<close>, which the loop never assigns, so
  the function goes on to \<open>resp.Body.Close()\<close> with a nil \<open>resp\<close>. The same happens
  when the request cannot be constructed: three attempts, three sleeps, no call, a panic.
\<close>

theorem GetTemperature_all_attempts_fail:
  "GetTemperature (example_world ''key'' (always refused) no_json no_json) ''Lisboa'' s0
     = (Panic, \<lparr>calls = 3, slept = [200, 100]\<rparr>)
   \<and> GetTemperature unbuildable_world ''Lisboa'' s0
     = (Panic, \<lparr>calls = 0, slept = [300, 200, 100]\<rparr>)"
  by code_simp

text \<open>
  No run of \<open>GetTemperature\<close> returns the error the code builds for exhausted attempts.
\<close>

lemma GetTemperature_never_wraps:
  "fst (GetTemperature w city s) \<noteq> Err (Errorf ''all weather API requests failed: '' e [])"
proof (cases "WEATHER_API_KEY w = []")
  case True
  then show ?thesis by (simp add: GetTemperature_unfold)
next
  case False
  obtain resp err s' where
    loop: "retry_loop w (reqURL_of w city) 1 None None s = (resp, err, s')"
    by (cases "retry_loop w (reqURL_of w city) 1 None None s") auto
  have "err = None"
    using retry_loop_err [of w "reqURL_of w city" 1 None None s] loop by simp
  then show ?thesis
    using False loop
    by (auto simp add: GetTemperature_unfold after_loop_def Let_def
        split: option.splits sum.splits)
qed


section \<open>The geocoding client: claims\<close>

lemma GetCityByCEP_unfold:
  "GetCityByCEP w cep s =
     (if length (normalizeCEP cep) \<noteq> 8 then (Err ErrInvalidZipCode, s)
      else
        case NewRequest w (geoURL cep) of
          Some e \<Rightarrow> (Err (Errorf ''failed to create request: '' (External e) []), s)
        | None \<Rightarrow>
            (case Do w (calls s) (geoURL cep) of
               Failed r e \<Rightarrow> (Err (Errorf ''failed to send request: '' (External e) []), called s)
             | Resp resp \<Rightarrow>
                 if StatusCode resp \<noteq> 200 then (Err ErrZipCodeNotFound, called s)
                 else
                   (case Body resp of
                      Inl e \<Rightarrow> (Err ErrInternalServer, called s)
                    | Inr bodyBytes \<Rightarrow>
                        (case Unmarshal_ViaCEPResponse w bodyBytes of
                           Inl e \<Rightarrow> (Err ErrInternalServer, called s)
                         | Inr viacepResponse \<Rightarrow>
                             if Erro viacepResponse then (Err ErrZipCodeNotFound, called s)
                             else if Localidade viacepResponse = []
                             then (Err ErrZipCodeNotFound, called s)
                             else (Ok (Localidade viacepResponse), called s)))))"
  unfolding GetCityByCEP_def geoURL_def Let_def by (rule refl)

lemma handleCEPError_NotFound:
  "handleCEPError ErrZipCodeNotFound = Reply 404 (ErrorResponse ''can not find zipcode'')"
  by (simp add: handleCEPError_def respondWithError_def respondWithJSON_def)

lemma handleCEPError_Internal:
  "handleCEPError ErrInternalServer = Reply 500 (ErrorResponse ''internal server error'')"
  by (simp add: handleCEPError_def respondWithError_def respondWithJSON_def)

lemma handleCEPError_External:
  "handleCEPError (Errorf before (External e) after)
     = Reply 500 (ErrorResponse ''internal server error'')"
  by (simp add: handleCEPError_def respondWithError_def respondWithJSON_def)

text \<open>
  Claim C6. For a postal code of eight bytes after normalisation, \<open>GetCityByCEP\<close>
  classifies the outcome of its single request: an error creating or sending the request
  gives an error the handler answers with status 500; a status other than 200 gives
  \<open>ErrZipCodeNotFound\<close>; with status 200, a body that cannot be read or decoded gives
  \<open>ErrInternalServer\<close>, a decoded response with the flag \<open>erro\<close> or with an empty city
  gives \<open>ErrZipCodeNotFound\<close>, and any other gives the city. The handler answers
  \<open>ErrZipCodeNotFound\<close> with status 404 and the message \<open>can not find zipcode\<close>, and
  \<open>ErrInternalServer\<close> with status 500.
\<close>

theorem GetCityByCEP_classification:
  assumes "length (normalizeCEP cep) = 8"
  shows "(NewRequest w (geoURL cep) = Some e \<longrightarrow>
            (\<exists>err. GetCityByCEP w cep s = (Err err, s)
               \<and> handleCEPError err = Reply 500 (ErrorResponse ''internal server error'')))
       \<and> (NewRequest w (geoURL cep) = None \<and> Do w (calls s) (geoURL cep) = Failed r e \<longrightarrow>
            (\<exists>err. GetCityByCEP w cep s = (Err err, called s)
               \<and> handleCEPError err = Reply 500 (ErrorResponse ''internal server error'')))
       \<and> (NewRequest w (geoURL cep) = None \<and> Do w (calls s) (geoURL cep) = Resp resp \<longrightarrow>
            (StatusCode resp \<noteq> 200 \<longrightarrow>
               GetCityByCEP w cep s = (Err ErrZipCodeNotFound, called s))
          \<and> (StatusCode resp = 200 \<and> Body resp = Inl e \<longrightarrow>
               GetCityByCEP w cep s = (Err ErrInternalServer, called s))
          \<and> (StatusCode resp = 200 \<and> Body resp = Inr b
                \<and> Unmarshal_ViaCEPResponse w b = Inl e \<longrightarrow>
               GetCityByCEP w cep s = (Err ErrInternalServer, called s))
          \<and> (StatusCode resp = 200 \<and> Body resp = Inr b
                \<and> Unmarshal_ViaCEPResponse w b = Inr v \<longrightarrow>
               (Erro v \<longrightarrow> GetCityByCEP w cep s = (Err ErrZipCodeNotFound, called s))
             \<and> (Localidade v = [] \<longrightarrow>
                  GetCityByCEP w cep s = (Err ErrZipCodeNotFound, called s))
             \<and> (\<not> Erro v \<and> Localidade v \<noteq> [] \<longrightarrow>
                  GetCityByCEP w cep s = (Ok (Localidade v), called s))))
       \<and> handleCEPError ErrZipCodeNotFound = Reply 404 (ErrorResponse ''can not find zipcode'')
       \<and> handleCEPError ErrInternalServer = Reply 500 (ErrorResponse ''internal server error'')"
  using assms
  by (simp add: GetCityByCEP_unfold handleCEPError_NotFound handleCEPError_Internal
      handleCEPError_External)

theorem GetCityByCEP_classification_witness:
  "GetCityByCEP (geo_world (always (answer 400)) no_json) ''99999-999'' s0
     = (Err ErrZipCodeNotFound, called s0)
   \<and> GetCityByCEP (geo_world (always (answer 200)) (viacep_json True [])) ''99999-999'' s0
     = (Err ErrZipCodeNotFound, called s0)
   \<and> GetCityByCEP (geo_world (always (answer 200)) (viacep_json False [])) ''99999-999'' s0
     = (Err ErrZipCodeNotFound, called s0)
   \<and> GetCityByCEP (geo_world (always (answer 200)) no_json) ''01001-000'' s0
     = (Err ErrInternalServer, called s0)
   \<and> GetCityByCEP (geo_world (always (answer 200)) (viacep_json False ''Sao Paulo''))
        ''01001-000'' s0
     = (Ok ''Sao Paulo'', called s0)
   \<and> GetCityByCEP (geo_world (always refused) no_json) ''01001-000'' s0
     = (Err (Errorf ''failed to send request: '' (External (NetErr ''connection refused'')) []),
        called s0)
   \<and> handleCEPError
        (Errorf ''failed to send request: '' (External (NetErr ''connection refused'')) [])
     = Reply 500 (ErrorResponse ''internal server error'')"
proof -
  have len: "length (normalizeCEP ''99999-999'') = 8" "length (normalizeCEP ''01001-000'') = 8"
    by (simp_all add: normalizeCEP_def)
  note inst = GetCityByCEP_classification
  note w = geo_world_def example_world_def always_def answer_def refused_def no_json_def
    viacep_json_def
  let ?empty = "\<lparr>Cep = [], Logradouro = [], Complemento = [], Bairro = [], Localidade = [],
                  UF = [], Erro = False\<rparr>"
  have "GetCityByCEP (geo_world (always (answer 400)) no_json) ''99999-999'' s0
     = (Err ErrZipCodeNotFound, called s0)"
    using inst [OF len(1), where w = "geo_world (always (answer 400)) no_json" and s = s0
        and resp = "\<lparr>StatusCode = 400, Body = Inr ''{}''\<rparr>"]
    by (simp add: w)
  moreover have "GetCityByCEP (geo_world (always (answer 200)) (viacep_json True [])) ''99999-999'' s0
     = (Err ErrZipCodeNotFound, called s0)"
    using inst [OF len(1), where w = "geo_world (always (answer 200)) (viacep_json True [])"
        and s = s0 and resp = "\<lparr>StatusCode = 200, Body = Inr ''{}''\<rparr>" and b = "''{}''"
        and v = "?empty\<lparr>Erro := True\<rparr>"]
    by (simp add: w)
  moreover have "GetCityByCEP (geo_world (always (answer 200)) (viacep_json False [])) ''99999-999'' s0
     = (Err ErrZipCodeNotFound, called s0)"
    using inst [OF len(1), where w = "geo_world (always (answer 200)) (viacep_json False [])"
        and s = s0 and resp = "\<lparr>StatusCode = 200, Body = Inr ''{}''\<rparr>" and b = "''{}''"
        and v = ?empty]
    by (simp add: w)
  moreover have "GetCityByCEP (geo_world (always (answer 200)) no_json) ''01001-000'' s0
     = (Err ErrInternalServer, called s0)"
    using inst [OF len(2), where w = "geo_world (always (answer 200)) no_json" and s = s0
        and resp = "\<lparr>StatusCode = 200, Body = Inr ''{}''\<rparr>" and b = "''{}''"
        and e = "NetErr ''unexpected end of JSON input''"]
    by (simp add: w)
  moreover have "GetCityByCEP (geo_world (always (answer 200)) (viacep_json False ''Sao Paulo''))
        ''01001-000'' s0 = (Ok ''Sao Paulo'', called s0)"
    using inst [OF len(2),
        where w = "geo_world (always (answer 200)) (viacep_json False ''Sao Paulo'')"
        and s = s0 and resp = "\<lparr>StatusCode = 200, Body = Inr ''{}''\<rparr>" and b = "''{}''"
        and v = "?empty\<lparr>Localidade := ''Sao Paulo''\<rparr>"]
    by (simp add: w)
  moreover have "GetCityByCEP (geo_world (always refused) no_json) ''01001-000'' s0
     = (Err (Errorf ''failed to send request: '' (External (NetErr ''connection refused'')) []),
        called s0)"
    using len(2) by (simp add: w GetCityByCEP_unfold)
  moreover have "handleCEPError
        (Errorf ''failed to send request: '' (External (NetErr ''connection refused'')) [])
     = Reply 500 (ErrorResponse ''internal server error'')"
    by (rule handleCEPError_External)
  ultimately show ?thesis by blast
qed

section \<open>The edge service: claims\<close>

text \<open>
  Claim C9. For a postal code the edge service accepts: when \<open>callServiceB\<close> fails (the
  request cannot be built or sent, or the response's body cannot be read) the edge
  answers with status 500; otherwise it writes the status code and the bytes of the
  internal service's response as they are.
\<close>

theorem HandleWeatherRequest_relays:
  assumes "app_Unmarshal_CepRequest a b = Inr cep" and "isValidCEP cep"
  shows "(callServiceB a cep s = (Inl err, t) \<longrightarrow>
            HandleWeatherRequest a ''POST'' (Inr b) s
              = (Reply 500 (ErrorResponse (''error calling service B: '' @ Error err)), t))
       \<and> (callServiceB a cep s = (Inr (bytes, code), t) \<longrightarrow>
            HandleWeatherRequest a ''POST'' (Inr b) s = (Relay code bytes, t))
       \<and> (app_Marshal_CepRequest a cep = Inr reqBody
            \<and> app_NewRequest a (ServiceBURL a) reqBody = None \<longrightarrow>
            (app_Do a (calls s) (ServiceBURL a) reqBody = Failed r e \<longrightarrow>
               callServiceB a cep s
                 = (Inl (Errorf ''request failed: '' (External e) []), called s))
          \<and> (app_Do a (calls s) (ServiceBURL a) reqBody = Resp resp \<and> Body resp = Inl e \<longrightarrow>
               callServiceB a cep s
                 = (Inl (Errorf ''failed to read response: '' (External e) []), called s))
          \<and> (app_Do a (calls s) (ServiceBURL a) reqBody = Resp resp \<and> Body resp = Inr bytes \<longrightarrow>
               HandleWeatherRequest a ''POST'' (Inr b) s
                 = (Relay (StatusCode resp) bytes, called s)))"
  using assms
  by (simp add: HandleWeatherRequest_def callServiceB_def app_respondWithError_def)

theorem HandleWeatherRequest_relays_witness:
  "HandleWeatherRequest
     (example_app ''01001000'' (app_always (Resp \<lparr>StatusCode = 404, Body = Inr ''not found''\<rparr>)))
     ''POST'' (Inr ''{}'') s0
     = (Relay 404 ''not found'', called s0)
   \<and> HandleWeatherRequest (example_app ''01001000'' (app_always refused)) ''POST'' (Inr ''{}'') s0
     = (Reply 500 (ErrorResponse ''error calling service B: request failed: connection refused''),
        called s0)"
proof -
  have v: "isValidCEP ''01001000''" by code_simp
  note w = example_app_def app_always_def refused_def
  let ?a = "example_app ''01001000'' (app_always (Resp \<lparr>StatusCode = 404, Body = Inr ''not found''\<rparr>))"
  let ?d = "example_app ''01001000'' (app_always refused)"
  have u: "app_Unmarshal_CepRequest ?a ''{}'' = Inr ''01001000''"
    "app_Unmarshal_CepRequest ?d ''{}'' = Inr ''01001000''"
    by (simp_all add: w)
  have "HandleWeatherRequest ?a ''POST'' (Inr ''{}'') s0 = (Relay 404 ''not found'', called s0)"
    using HandleWeatherRequest_relays [OF u(1) v, where s = s0 and reqBody = "''01001000''"
        and resp = "\<lparr>StatusCode = 404, Body = Inr ''not found''\<rparr>" and bytes = "''not found''"]
    by (simp add: w)
  moreover have "HandleWeatherRequest ?d ''POST'' (Inr ''{}'') s0
     = (Reply 500 (ErrorResponse ''error calling service B: request failed: connection refused''),
        called s0)"
    using HandleWeatherRequest_relays [OF u(2) v, where s = s0 and t = "called s0"
        and err = "Errorf ''request failed: '' (External (NetErr ''connection refused'')) []"]
    by (simp add: w callServiceB_def)
  ultimately show ?thesis by blast
qed

section \<open>Validation: claims\<close>

lemma respondWithError_eq: "respondWithError code m = Reply code (ErrorResponse m)"
  by (simp add: respondWithError_def respondWithJSON_def)

lemma handleCEPError_invalid:
  "handleCEPError err = invalid_zipcode \<Longrightarrow> Is err ErrInvalidZipCode"
  by (auto simp: handleCEPError_def respondWithError_eq invalid_zipcode_def split: if_splits)

lemma handleWeatherError_valid: "handleWeatherError err \<noteq> invalid_zipcode"
  by (simp add: handleWeatherError_def respondWithError_eq invalid_zipcode_def)

lemma respondWithJSON_valid: "respondWithJSON 200 p \<noteq> invalid_zipcode"
  by (simp add: respondWithJSON_def invalid_zipcode_def)

lemma GetCityByCEP_valid:
  assumes "length (normalizeCEP cep) = 8" and "GetCityByCEP w cep s = (Err err, t)"
  shows "\<not> Is err ErrInvalidZipCode"
  using assms
  by (auto simp add: GetCityByCEP_unfold split: option.splits do_result.splits sum.splits
      if_splits)

text \<open>What the internal service's validation decides.\<close>

lemma processWeatherRequest_validation:
  "fst (processWeatherRequest w cep s) = invalid_zipcode \<longleftrightarrow> length (normalizeCEP cep) \<noteq> 8 \<or> length cep \<noteq> 8"
proof (cases "length cep = 8")
  case False
  then show ?thesis
    by (simp add: processWeatherRequest_def respondWithError_eq invalid_zipcode_def)
next
  case len: True
  show ?thesis
  proof (cases "length (normalizeCEP cep) = 8")
    case False
    then have "GetCityByCEP w cep s = (Err ErrInvalidZipCode, s)"
      by (simp add: GetCityByCEP_unfold)
    then show ?thesis
      using len False
      by (simp add: processWeatherRequest_def handleCEPError_def respondWithError_eq
          invalid_zipcode_def)
  next
    case True
    obtain x t where geo: "GetCityByCEP w cep s = (x, t)"
      by (cases "GetCityByCEP w cep s") auto
    show ?thesis
    proof (cases x)
      case (Err err)
      then have "handleCEPError err \<noteq> invalid_zipcode"
        using GetCityByCEP_valid [OF True] geo handleCEPError_invalid by blast
      then show ?thesis
        using len True geo Err by (simp add: processWeatherRequest_def)
    next
      case Panic
      then show ?thesis
        using len True geo by (simp add: processWeatherRequest_def invalid_zipcode_def)
    next
      case (Ok city)
      obtain y t' where we: "GetTemperature w city t = (y, t')"
        by (cases "GetTemperature w city t") auto
      show ?thesis
        using len True geo Ok we handleWeatherError_valid respondWithJSON_valid
        by (cases y) (simp_all add: processWeatherRequest_def invalid_zipcode_def)
    qed
  qed
qed

lemma GetWeatherByCEP_validation:
  "fst (GetWeatherByCEP w raw s) = invalid_zipcode \<longleftrightarrow> length (normalizeCEP raw) \<noteq> 8"
  by (simp add: GetWeatherByCEP_def processWeatherRequest_validation normalizeCEP_idem)

lemma GetWeatherByCEP_rejects:
  "length (normalizeCEP raw) \<noteq> 8 \<Longrightarrow> GetWeatherByCEP w raw s = (invalid_zipcode, s)"
  by (simp add: GetWeatherByCEP_def processWeatherRequest_def respondWithError_eq
      invalid_zipcode_def)

lemma HandleWeatherRequest_validation:
  assumes "app_Unmarshal_CepRequest a b = Inr raw"
  shows "fst (HandleWeatherRequest a ''POST'' (Inr b) s) = invalid_zipcode \<longleftrightarrow> \<not> isValidCEP raw"
  using assms
  by (auto simp add: HandleWeatherRequest_def app_respondWithError_def invalid_zipcode_def
      split: prod.splits sum.splits)

text \<open>
  Claim C2, as amended. The edge service accepts a raw string exactly when it consists of
  eight ASCII digits (it strips nothing); it rejects without calling the internal service,
  and forwards what it accepts (one call, when the request can be built); and every
  string the edge service accepts is accepted by the internal service, at both of its
  entry points.
\<close>

theorem edge_validation_stricter:
  assumes "app_Unmarshal_CepRequest a b = Inr raw" and "Unmarshal_CepRequest w b = Inr raw"
  shows "(fst (HandleWeatherRequest a ''POST'' (Inr b) s) \<noteq> invalid_zipcode
            \<longleftrightarrow> length raw = 8 \<and> (\<forall>c\<in>set raw. isDigit c))
       \<and> (fst (HandleWeatherRequest a ''POST'' (Inr b) s) = invalid_zipcode
            \<longrightarrow> snd (HandleWeatherRequest a ''POST'' (Inr b) s) = s)
       \<and> (fst (HandleWeatherRequest a ''POST'' (Inr b) s) \<noteq> invalid_zipcode
            \<and> app_Marshal_CepRequest a raw = Inr reqBody
            \<and> app_NewRequest a (ServiceBURL a) reqBody = None
            \<longrightarrow> snd (HandleWeatherRequest a ''POST'' (Inr b) s) = called s)
       \<and> (fst (HandleWeatherRequest a ''POST'' (Inr b) s) \<noteq> invalid_zipcode
            \<longrightarrow> fst (GetWeatherByCEPPost w (Inr b) t) \<noteq> invalid_zipcode
              \<and> fst (GetWeatherByCEP w raw t) \<noteq> invalid_zipcode)"
proof -
  have edge: "fst (HandleWeatherRequest a ''POST'' (Inr b) s) \<noteq> invalid_zipcode
      \<longleftrightarrow> length raw = 8 \<and> (\<forall>c\<in>set raw. isDigit c)"
    using HandleWeatherRequest_validation [OF assms(1)] by (simp add: isValidCEP_iff)
  have reject: "snd (HandleWeatherRequest a ''POST'' (Inr b) s) = s" if "\<not> isValidCEP raw"
    using that assms(1) by (simp add: HandleWeatherRequest_def)
  have forward: "snd (HandleWeatherRequest a ''POST'' (Inr b) s) = called s"
    if "isValidCEP raw" "app_Marshal_CepRequest a raw = Inr reqBody"
      "app_NewRequest a (ServiceBURL a) reqBody = None"
    using that assms(1)
    by (simp add: HandleWeatherRequest_def callServiceB_def split: do_result.splits sum.splits)
  have post: "GetWeatherByCEPPost w (Inr b) t = GetWeatherByCEP w raw t"
    using assms(2) by (simp add: GetWeatherByCEPPost_def GetWeatherByCEP_def)
  have "length (normalizeCEP raw) = 8" if "length raw = 8" "\<forall>c\<in>set raw. isDigit c"
    using that by (simp add: normalizeCEP_digits)
  then show ?thesis
    using edge post reject forward HandleWeatherRequest_validation [OF assms(1), of s]
    by (simp add: GetWeatherByCEP_validation)
qed

theorem edge_validation_stricter_witness:
  "fst (HandleWeatherRequest (example_app ''22450000'' (app_always refused)) ''POST''
          (Inr ''{}'') s0) \<noteq> invalid_zipcode
   \<and> length ''22450000'' = 8
   \<and> fst (GetWeatherByCEP happy_world ''22450000'' s0) \<noteq> invalid_zipcode"
proof -
  let ?a = "example_app ''22450000'' (app_always refused)"
  let ?w = "happy_world\<lparr>Unmarshal_CepRequest := \<lambda>b. Inr ''22450000''\<rparr>"
  have a: "app_Unmarshal_CepRequest ?a ''{}'' = Inr ''22450000''"
    by (simp add: example_app_def)
  have w: "Unmarshal_CepRequest ?w ''{}'' = Inr ''22450000''"
    by simp
  have d: "\<forall>c\<in>set ''22450000''. isDigit c"
    by (simp add: isDigit_def)
  have "fst (HandleWeatherRequest ?a ''POST'' (Inr ''{}'') s0) \<noteq> invalid_zipcode
      \<and> fst (GetWeatherByCEP ?w ''22450000'' s0) \<noteq> invalid_zipcode"
    using edge_validation_stricter [OF a w, where s = s0 and t = s0] d by simp
  moreover have "fst (GetWeatherByCEP happy_world ''22450000'' s0) \<noteq> invalid_zipcode"
    by (simp add: GetWeatherByCEP_validation normalizeCEP_def)
  ultimately show ?thesis by simp
qed

text \<open>
  Claim C2, as stated, fails at the string \<open>22450-000\<close>: the edge service rejects it
  with status 422, and the internal service accepts it and answers with the weather.
\<close>

theorem edge_validation_counterexample:
  "fst (HandleWeatherRequest (example_app ''22450-000'' (app_always refused)) ''POST''
          (Inr ''{}'') s0)
     = Reply 422 (ErrorResponse ''invalid zipcode'')
   \<and> GetWeatherByCEP happy_world ''22450-000'' s0
     = (Reply 200 (WeatherResponse ''Rio de Janeiro'' (round64 25 1) (round64 77 1)
                    (round64 29815 100)),
        \<lparr>calls = 2, slept = []\<rparr>)"
  by code_simp

text \<open>
  Claim C1, at an input where it fails. The internal service's validation is the test
  \<open>len(cep) != 8\<close> alone, so it accepts the eight letters \<open>abcdefgh\<close>: the geocoding
  upstream is called, and its refusal (status 400) is answered with status 404, not 422.
\<close>

theorem GetWeatherByCEP_accepts_letters:
  "GetWeatherByCEP (geo_world (always (answer 400)) no_json) ''abcdefgh'' s0
     = (Reply 404 (ErrorResponse ''can not find zipcode''), \<lparr>calls = 1, slept = []\<rparr>)"
  by code_simp


section \<open>Temperatures: claims\<close>

lemma GetTemperature_success:
  assumes "WEATHER_API_KEY w \<noteq> []"
    and "calls s < calls (snd (GetTemperature w city s))"
    and "Do w (calls (snd (GetTemperature w city s)) - 1) (reqURL_of w city) = Resp r"
    and "Body r = Inr b"
    and "Decode_WeatherAPIResponse w b = Inr v"
    and "StatusCode r = 200"
  shows "fst (GetTemperature w city s) =
      Ok \<lparr>TempC = round_go (Current_TempC v) 2,
          TempF = round_go (if Current_TempF v \<noteq> Finite 0 0 then Current_TempF v
                            else fadd (fmul (Current_TempC v) (round64 9 5))
                                   (float64_of_int 32)) 2,
          TempK = round_go (fadd (Current_TempC v) (round64 5463 20)) 2\<rparr>"
proof -
  obtain resp err s' where
    loop: "retry_loop w (reqURL_of w city) 1 None None s = (resp, err, s')"
    by (cases "retry_loop w (reqURL_of w city) 1 None None s") auto
  have s': "snd (GetTemperature w city s) = s'"
    using assms(1) loop by (simp add: GetTemperature_effects)
  have "err = None"
    using retry_loop_err [of w "reqURL_of w city" 1 None None s] loop by simp
  moreover have "resp = Some r"
    using retry_loop_resp [OF loop] assms(2,3) s' by simp
  ultimately have "GetTemperature w city s = after_loop w (Some r, None, s')"
    using assms(1) loop by (simp add: GetTemperature_unfold)
  then show ?thesis
    using assms(4,5,6) by (simp add: after_loop_def Let_def)
qed

text \<open>
  Claim C5, at an input where it fails. The upstream reports -20 degrees Celsius and no
  Fahrenheit value (or the matching value -4): the Fahrenheit value to round is exactly
  -4, and \<open>round\<close> returns -3.99, because \<open>int(num*factor+0.5)\<close> truncates -399.5
  towards zero. The Celsius value comes back as -19.99.
\<close>

theorem GetTemperature_negative_rounding:
  "GetTemperature (weather_world (round64 (- 20) 1) (Finite 0 0)) ''Oslo'' s0
     = (Ok \<lparr>TempC = round64 (- 1999) 100, TempF = round64 (- 399) 100,
            TempK = round64 25315 100\<rparr>,
        \<lparr>calls = 1, slept = []\<rparr>)
   \<and> GetTemperature (weather_world (round64 (- 20) 1) (round64 (- 4) 1)) ''Oslo'' s0
     = (Ok \<lparr>TempC = round64 (- 1999) 100, TempF = round64 (- 399) 100,
            TempK = round64 25315 100\<rparr>,
        \<lparr>calls = 1, slept = []\<rparr>)
   \<and> fadd (fmul (round64 (- 20) 1) (round64 9 5)) (float64_of_int 32) = round64 (- 4) 1
   \<and> round64 (- 399) 100 \<noteq> round64 (- 4) 1"
  by code_simp

text \<open>
  Claim C10, as stated, fails at the Celsius value 0.005: the payload's Celsius value is
  0.01 and its Kelvin value is 273.15, while adding 273.15 to the payload's Celsius value
  and rounding gives 273.16.
\<close>

theorem Kelvin_of_rounded_Celsius_counterexample:
  "GetTemperature (weather_world (round64 5 1000) (Finite 0 0)) ''Oslo'' s0
     = (Ok \<lparr>TempC = round64 1 100, TempF = round64 3201 100, TempK = round64 27315 100\<rparr>,
        \<lparr>calls = 1, slept = []\<rparr>)
   \<and> round_go (fadd (round64 1 100) (round64 5463 20)) 2 = round64 27316 100
   \<and> round64 27315 100 \<noteq> round64 27316 100"
  by code_simp

text \<open>
  Claim C10, as amended. In every successful result the Celsius value is the upstream's
  value rounded, the Kelvin value is the upstream's (unrounded) Celsius value plus
  273.15, rounded, whether or not an upstream Fahrenheit value is used, and a non-zero
  upstream Fahrenheit value comes back rounded and not derived; so a payload can carry a
  Fahrenheit value that differs from the one derived from its Celsius value.
\<close>

theorem Kelvin_from_upstream_Celsius:
  assumes "WEATHER_API_KEY w \<noteq> []"
    and "calls s < calls (snd (GetTemperature w city s))"
    and "Do w (calls (snd (GetTemperature w city s)) - 1) (reqURL_of w city) = Resp r"
    and "Body r = Inr b"
    and "Decode_WeatherAPIResponse w b = Inr v"
    and "StatusCode r = 200"
  shows "(\<exists>t. fst (GetTemperature w city s) = Ok t
            \<and> TempC t = round_go (Current_TempC v) 2
            \<and> TempK t = round_go (fadd (Current_TempC v) (round64 5463 20)) 2
            \<and> (Current_TempF v \<noteq> Finite 0 0 \<longrightarrow> TempF t = round_go (Current_TempF v) 2))
       \<and> (\<exists>t. fst (GetTemperature (weather_world (round64 25 1) (round64 100 1)) ''Oslo'' s0)
                 = Ok t
            \<and> TempF t \<noteq> round_go (fadd (fmul (TempC t) (round64 9 5)) (float64_of_int 32)) 2)"
proof -
  have "fst (GetTemperature (weather_world (round64 25 1) (round64 100 1)) ''Oslo'' s0)
      = Ok \<lparr>TempC = round64 25 1, TempF = round64 100 1, TempK = round64 29815 100\<rparr>"
    by code_simp
  moreover have "round64 100 1
      \<noteq> round_go (fadd (fmul (round64 25 1) (round64 9 5)) (float64_of_int 32)) 2"
    by code_simp
  ultimately have "\<exists>t. fst (GetTemperature (weather_world (round64 25 1) (round64 100 1)) ''Oslo'' s0)
                 = Ok t
            \<and> TempF t \<noteq> round_go (fadd (fmul (TempC t) (round64 9 5)) (float64_of_int 32)) 2"
    by simp
  then show ?thesis
    using GetTemperature_success [OF assms] by simp
qed

theorem Kelvin_from_upstream_Celsius_witness:
  "fst (GetTemperature (weather_world (round64 25 1) (round64 100 1)) ''Oslo'' s0)
     = Ok \<lparr>TempC = round64 25 1, TempF = round64 100 1, TempK = round64 29815 100\<rparr>
   \<and> round_go (fadd (round64 25 1) (round64 5463 20)) 2 = round64 29815 100
   \<and> round_go (round64 100 1) 2 = round64 100 1
   \<and> round64 100 1 \<noteq> Finite 0 0"
proof -
  let ?w = "weather_world (round64 25 1) (round64 100 1)"
  let ?v = "\<lparr>Current_TempC = round64 25 1, Current_TempF = round64 100 1, Error_Code = 0,
              Error_Message = []\<rparr>"
  have k: "WEATHER_API_KEY ?w \<noteq> []"
    by (simp add: weather_world_def example_world_def)
  have c: "calls (snd (GetTemperature ?w ''Oslo'' s0)) = 1"
    by code_simp
  have z0: "calls s0 = 0"
    by (simp add: s0_def)
  have z: "calls s0 < calls (snd (GetTemperature ?w ''Oslo'' s0))"
    using c z0 by simp
  have d: "Do ?w (calls (snd (GetTemperature ?w ''Oslo'' s0)) - 1) (reqURL_of ?w ''Oslo'')
             = Resp \<lparr>StatusCode = 200, Body = Inr ''{}''\<rparr>"
    unfolding c by (simp add: weather_world_def example_world_def always_def answer_def)
  have j: "Decode_WeatherAPIResponse ?w ''{}'' = Inr ?v"
    by (simp add: weather_world_def example_world_def weather_json_def)
  have e: "fst (GetTemperature ?w ''Oslo'' s0)
     = Ok \<lparr>TempC = round64 25 1, TempF = round64 100 1, TempK = round64 29815 100\<rparr>"
    by code_simp
  have n: "round64 100 1 \<noteq> Finite 0 0"
    by code_simp
  have "\<exists>t. fst (GetTemperature ?w ''Oslo'' s0) = Ok t
            \<and> TempC t = round_go (Current_TempC ?v) 2
            \<and> TempK t = round_go (fadd (Current_TempC ?v) (round64 5463 20)) 2
            \<and> (Current_TempF ?v \<noteq> Finite 0 0 \<longrightarrow> TempF t = round_go (Current_TempF ?v) 2)"
    using Kelvin_from_upstream_Celsius [OF k z d _ j] by simp
  then show ?thesis
    using e n by auto
qed

end
